theory Spec2Isabelle
  imports Complex_Main
begin

section \<open>IOHClustering: clustering problems wrapped as black-box optimisation problems\<close>

text \<open>
  A shallow embedding of \<^verbatim>\<open>src/iohclustering/cluster_base.py\<close>.

  Conventions of the model.
  \<^item> Arrays are arrays of dtype float64 with finite entries: what \<^verbatim>\<open>np.loadtxt\<close> returns,
    and what a caller passes as a dataset. An array of an integer dtype, whose subtraction
    wraps around, is outside the model. A two-dimensional array is the list of its rows.
    Array entries are real numbers: the rounding of float64 arithmetic is not modelled.
    What float64 arithmetic adds to the reals and the code can produce from finite data,
    the values nan and \<open>\<plusminus>\<close>inf of a division by zero, is modelled (\<open>npfloat\<close>).
  \<^item> Python exceptions are values of the type \<open>error\<close>; a function that can raise returns
    \<open>error + 'a\<close>, with \<open>Inl\<close> for the exception.
  \<^item> The dictionaries \<^verbatim>\<open>CLUSTER_METRICS\<close>, \<^verbatim>\<open>CLUSTER_BASELINE_DATASETS\<close> and
    \<^verbatim>\<open>BASELINE_K_DIMENTIONS\<close> come from the modules \<^verbatim>\<open>cluster_metrics\<close> and
    \<^verbatim>\<open>cluster_baseline_problems\<close>; they are parameters of the model (the record \<open>env\<close>),
    held as association lists in insertion order.
  \<^item> The file system and the remote archive are an explicit state (the record \<open>world\<close>).
    Paths are relative to the working directory.
  \<^item> Strings are lists of bytes; \<^verbatim>\<open>str.lower\<close> is modelled on ASCII.
  \<^item> The cluster count \<open>k\<close> is a natural number (\<^verbatim>\<open>np.tile\<close> rejects a negative
    count); the instance number is an integer. Default arguments are passed explicitly.
\<close>

subsection \<open>Exceptions\<close>

datatype error =
    ValueError string
  | KeyError string
  | IndexError string
  | AxisError string
  | FileNotFoundError string
  | IsADirectoryError string
  | FileExistsError string
  | URLError string
  | TarError string

text \<open>The error taxonomy of the specification, as the exceptions the code raises.\<close>

definition UnknownMetric :: "string \<Rightarrow> error" where
  "UnknownMetric error_metric = ValueError (''Unknown metric '' @ error_metric)"

definition UnknownDatasetName :: "string \<Rightarrow> error" where
  "UnknownDatasetName dataset_name = ValueError (''Unknown dataset name '' @ dataset_name)"

definition UnknownDatasetId :: "string \<Rightarrow> error" where
  "UnknownDatasetId fid = ValueError (''Unknown dataset id '' @ fid)"

text \<open>A call succeeds when it returns instead of raising.\<close>

fun succeeds :: "error + 'a \<Rightarrow> bool" where
  "succeeds (Inl e) = False"
| "succeeds (Inr p) = True"

subsection \<open>Strings: \<^verbatim>\<open>str(int)\<close> and \<^verbatim>\<open>str.lower\<close>\<close>

definition digit_char :: "nat \<Rightarrow> char" where
  "digit_char d = char_of (48 + d)"

function str_nat :: "nat \<Rightarrow> string" where
  "str_nat n = (if n < 10 then [digit_char n] else str_nat (n div 10) @ [digit_char (n mod 10)])"
  by pat_completeness auto
termination
  by (relation "measure id") auto

declare str_nat.simps [simp del]

definition str_int :: "int \<Rightarrow> string" where
  "str_int i = (if i < 0 then CHR ''-'' # str_nat (nat (- i)) else str_nat (nat i))"

definition lower_char :: "char \<Rightarrow> char" where
  "lower_char c =
     (let n = (of_char c :: nat)
      in if 65 \<le> n then (if n \<le> 90 then char_of (n + 32) else c) else c)"

definition lower :: "string \<Rightarrow> string" where
  "lower s = map lower_char s"

subsection \<open>Values of float64 arrays\<close>

datatype npfloat = Finite real | NaN | PosInf | NegInf

text \<open>
  \<^verbatim>\<open>a / b\<close> on finite float64 values under numpy: a division by zero does not raise,
  it gives nan for \<^verbatim>\<open>0 / 0\<close> and a signed infinity otherwise. The divisor of the
  code is a difference \<^verbatim>\<open>max - min\<close>, whose zero is +0.0.
\<close>

definition np_divide :: "real \<Rightarrow> real \<Rightarrow> npfloat" where
  "np_divide a b =
     (if b = 0 then (if a = 0 then NaN else if 0 < a then PosInf else NegInf)
      else Finite (a / b))"

text \<open>\<^verbatim>\<open>x * b\<close> and \<^verbatim>\<open>x + b\<close> for an array value \<open>x\<close> and a finite \<open>b\<close>.\<close>

fun np_multiply :: "npfloat \<Rightarrow> real \<Rightarrow> npfloat" where
  "np_multiply (Finite a) b = Finite (a * b)"
| "np_multiply NaN b = NaN"
| "np_multiply PosInf b = (if b = 0 then NaN else if 0 < b then PosInf else NegInf)"
| "np_multiply NegInf b = (if b = 0 then NaN else if 0 < b then NegInf else PosInf)"

fun np_add :: "npfloat \<Rightarrow> real \<Rightarrow> npfloat" where
  "np_add (Finite a) b = Finite (a + b)"
| "np_add NaN b = NaN"
| "np_add PosInf b = PosInf"
| "np_add NegInf b = NegInf"

subsection \<open>The module-level dictionaries\<close>

type_synonym metric = "npfloat list list \<Rightarrow> npfloat list list \<Rightarrow> npfloat"

record env =
  CLUSTER_METRICS :: "(string \<times> metric) list"
  CLUSTER_BASELINE_DATASETS :: "(int \<times> string) list"
  BASELINE_K_DIMENTIONS :: "(string \<times> nat list) list"

subsection \<open>\<^verbatim>\<open>get_problem_id\<close>\<close>

text \<open>
  The loop \<^verbatim>\<open>for k, v in CLUSTER_BASELINE_DATASETS.items(): if v == dataset_name: return k\<close>.
  Falling off the end of the loop returns Python's \<^verbatim>\<open>None\<close>.
\<close>

fun first_key :: "(int \<times> string) list \<Rightarrow> string \<Rightarrow> int option" where
  "first_key [] dataset_name = None"
| "first_key ((k, v) # items) dataset_name =
     (if v = dataset_name then Some k else first_key items dataset_name)"

definition get_problem_id :: "env \<Rightarrow> string \<Rightarrow> error + int option" where
  "get_problem_id e dataset_name =
     (let dataset_name = lower dataset_name
      in if dataset_name \<in> set (map snd (CLUSTER_BASELINE_DATASETS e))
         then Inr (first_key (CLUSTER_BASELINE_DATASETS e) dataset_name)
         else Inl (ValueError (''Unknown dataset name '' @ dataset_name)))"

subsection \<open>Array operations of numpy\<close>

text \<open>A nested sequence is an array when all its rows have one length.\<close>

definition rectangular :: "'a list list \<Rightarrow> bool" where
  "rectangular rows = list_all (\<lambda>r. length r = length (hd rows)) rows"

text \<open>\<^verbatim>\<open>np.min(data_np, axis=0)\<close> and \<^verbatim>\<open>np.max(data_np, axis=0)\<close> on an array with a row.\<close>

definition np_min_axis0 :: "real list list \<Rightarrow> real list" where
  "np_min_axis0 rows = foldl (map2 min) (hd rows) (tl rows)"

definition np_max_axis0 :: "real list list \<Rightarrow> real list" where
  "np_max_axis0 rows = foldl (map2 max) (hd rows) (tl rows)"

text \<open>\<^verbatim>\<open>np.tile(v, k)\<close> for a one-dimensional \<open>v\<close>.\<close>

definition np_tile :: "'a list \<Rightarrow> nat \<Rightarrow> 'a list" where
  "np_tile v k = concat (replicate k v)"

text \<open>
  An operation on two one-dimensional arrays, under numpy's broadcasting: the lengths
  agree, or one of them is 1.
\<close>

definition broadcast :: "('a \<Rightarrow> 'b \<Rightarrow> 'c) \<Rightarrow> 'a list \<Rightarrow> 'b list \<Rightarrow> error + 'c list" where
  "broadcast f xs ys =
     (if length xs = length ys then Inr (map2 f xs ys)
      else if length xs = 1 then Inr (map (f (hd xs)) ys)
      else if length ys = 1 then Inr (map (\<lambda>x. f x (hd ys)) xs)
      else Inl (ValueError ''operands could not be broadcast together''))"

text \<open>
  \<^verbatim>\<open>x.reshape(k, w)\<close> and \<^verbatim>\<open>x.reshape(k, -1)\<close> for a one-dimensional \<open>x\<close>, in row-major
  order: each block of \<open>w\<close> consecutive values is one row.
\<close>

fun split_rows :: "nat \<Rightarrow> nat \<Rightarrow> 'a list \<Rightarrow> 'a list list" where
  "split_rows 0 w xs = []"
| "split_rows (Suc n) w xs = take w xs # split_rows n w (drop w xs)"

definition reshape :: "'a list \<Rightarrow> nat \<Rightarrow> nat \<Rightarrow> error + 'a list list" where
  "reshape xs k w =
     (if length xs = k * w then Inr (split_rows k w xs)
      else Inl (ValueError ''cannot reshape array''))"

definition reshape_infer :: "'a list \<Rightarrow> nat \<Rightarrow> error + 'a list list" where
  "reshape_infer xs k =
     (if k = 0 then Inl (ValueError ''cannot reshape array'')
      else if length xs mod k = 0 then reshape xs k (length xs div k)
      else Inl (ValueError ''cannot reshape array''))"

text \<open>
  Line 78, \<^verbatim>\<open>(data_np - min) / (max - min)\<close>: the vectors of the minima and maxima are
  broadcast over the rows.
\<close>

definition normalize_rows :: "real list \<Rightarrow> real list \<Rightarrow> real list list \<Rightarrow> npfloat list list" where
  "normalize_rows mn mx rows =
     map (\<lambda>row. map2 np_divide (map2 (-) row mn) (map2 (-) mx mn)) rows"

text \<open>
  The specification's \<open>normalize_centers\<close>: the normalization of the dataset,
  \<open>(value - min) / (max - min)\<close> elementwise per feature, applied to a matrix of centers.
\<close>

definition normalize_centers :: "real list list \<Rightarrow> real list list \<Rightarrow> npfloat list list" where
  "normalize_centers data_np C = normalize_rows (np_min_axis0 data_np) (np_max_axis0 data_np) C"

subsection \<open>The file system and the remote archive\<close>

datatype file_content = NumericTable "real list list" | NotNumeric

datatype response = Archive "(string \<times> file_content) list" | Malformed

datatype effect = Warning string | Print string | UrlOpen string | ExtractAll string

record world =
  dirs :: "string list"
  files :: "(string \<times> file_content) list"
  remote :: "(string \<times> response) list"
  trace :: "effect list"

definition path_exists :: "world \<Rightarrow> string \<Rightarrow> bool" where
  "path_exists w path = (path \<in> set (dirs w) \<or> path \<in> set (map fst (files w)))"

definition isdir :: "world \<Rightarrow> string \<Rightarrow> bool" where
  "isdir w path = (path \<in> set (dirs w))"

text \<open>
  A float64 array of at most two dimensions: a scalar array, a vector, or a matrix held
  as the list of its rows.
\<close>

datatype ndarray = Array0 real | Array1 "real list" | Array2 "real list list"

text \<open>
  \<^verbatim>\<open>np.loadtxt(path, delimiter=',')\<close>. The rows of a file must have one length. The call
  passes no \<^verbatim>\<open>ndmin\<close>, so numpy squeezes the table it has read: a file with one row or
  with one column gives a one-dimensional array, a file with a single number a scalar
  array, and a file with no data an empty one-dimensional array.
\<close>

definition np_squeeze :: "real list list \<Rightarrow> ndarray" where
  "np_squeeze t =
     (if t = [] then Array1 []
      else if length t = 1
      then (if length (hd t) = 1 then Array0 (hd (hd t)) else Array1 (hd t))
      else if length (hd t) = 1 then Array1 (map hd t)
      else Array2 t)"

definition loadtxt :: "world \<Rightarrow> string \<Rightarrow> error + ndarray" where
  "loadtxt w path =
     (if path \<in> set (dirs w) then Inl (IsADirectoryError path)
      else case map_of (files w) path of
             None \<Rightarrow> Inl (FileNotFoundError path)
           | Some NotNumeric \<Rightarrow> Inl (ValueError ''could not convert string to float'')
           | Some (NumericTable t) \<Rightarrow>
               (if rectangular t then Inr (np_squeeze t)
                else Inl (ValueError ''the number of columns changed'')))"

text \<open>The names in a directory: the paths one level below it.\<close>

definition child_name :: "string \<Rightarrow> string \<Rightarrow> string list" where
  "child_name d path =
     (if take (length d + 1) path = d @ ''/''
      then (if CHR ''/'' \<in> set (drop (length d + 1) path) then []
            else [drop (length d + 1) path])
      else [])"

definition listdir :: "world \<Rightarrow> string \<Rightarrow> string list" where
  "listdir w d = concat (map (child_name d) (dirs w @ map fst (files w)))"

subsection \<open>The benchmark framework\<close>

text \<open>
  \<^verbatim>\<open>ioh.wrap_problem\<close> belongs to an external library. The model keeps what the code hands
  over: the handle returned is a record of the arguments, with the scalar bounds held
  once per dimension, and \<open>problem_id = None\<close> until \<^verbatim>\<open>set_id\<close> is called.
\<close>

datatype optimization_type = OptimizationType_MIN | OptimizationType_MAX

datatype problem_class = ProblemClass_REAL | ProblemClass_INTEGER

record problem =
  objective :: "npfloat list \<Rightarrow> error + npfloat"
  name :: string
  optimization_type :: optimization_type
  problem_class :: problem_class
  lb :: "real list"
  ub :: "real list"
  instance_number :: int
  dimension :: nat
  problem_id :: "int option"

definition wrap_problem ::
  "(npfloat list \<Rightarrow> error + npfloat) \<Rightarrow> string \<Rightarrow> optimization_type \<Rightarrow> problem_class
     \<Rightarrow> real \<Rightarrow> real \<Rightarrow> int \<Rightarrow> nat \<Rightarrow> problem" where
  "wrap_problem function nm ot pc lo hi inst n =
     \<lparr> objective = function, name = nm, optimization_type = ot, problem_class = pc,
       lb = replicate n lo, ub = replicate n hi, instance_number = inst,
       dimension = n, problem_id = None \<rparr>"

definition set_id :: "problem \<Rightarrow> int \<Rightarrow> problem" where
  "set_id f i = f\<lparr>problem_id := Some i\<rparr>"

subsection \<open>\<^verbatim>\<open>create_cluster_problem\<close>\<close>

text \<open>
  The argument \<^verbatim>\<open>dataset\<close>: a name, or a two-dimensional array of dtype float64 held
  as the list of its rows.
\<close>

datatype dataset_ref = DatasetName string | DatasetArray "real list list"

datatype metric_ref = MetricName string | MetricCallable metric

text \<open>Lines 54 to 64: the data, the catalog ID (\<^verbatim>\<open>id\<close>) and the label of the dataset.\<close>

definition load_dataset ::
  "env \<Rightarrow> world \<Rightarrow> dataset_ref \<Rightarrow> error + (int option \<times> ndarray \<times> string)" where
  "load_dataset e w dataset =
     (case dataset of
        DatasetName s \<Rightarrow>
          (if path_exists w (s @ ''.txt'')
           then (case loadtxt w (s @ ''.txt'') of
                   Inl err \<Rightarrow> Inl err
                 | Inr data \<Rightarrow> Inr (None, data, s))
           else (case get_problem_id e s of
                   Inl err \<Rightarrow> Inl err
                 | Inr pid \<Rightarrow>
                     (case loadtxt w (''banchmark_datasets/'' @ s @ ''.txt'') of
                        Inl err \<Rightarrow> Inl err
                      | Inr data \<Rightarrow> Inr (pid, data, s))))
      | DatasetArray data \<Rightarrow> Inr (None, Array2 data, ''custom''))"

text \<open>Lines 66 to 70.\<close>

definition resolve_metric :: "env \<Rightarrow> metric_ref \<Rightarrow> error + metric" where
  "resolve_metric e error_metric =
     (case error_metric of
        MetricName s \<Rightarrow>
          (case map_of (CLUSTER_METRICS e) s of
             Some m \<Rightarrow> Inr m
           | None \<Rightarrow> Inl (ValueError (''Unknown metric '' @ s)))
      | MetricCallable m \<Rightarrow> Inr m)"

text \<open>The closures \<^verbatim>\<open>obj_func\<close> and \<^verbatim>\<open>retransform\<close>, with what they capture as arguments.\<close>

definition obj_func ::
  "metric \<Rightarrow> npfloat list list \<Rightarrow> nat \<Rightarrow> nat \<Rightarrow> npfloat list \<Rightarrow> error + npfloat" where
  "obj_func error_metric data_normalized k n_features x =
     (case reshape x k n_features of
        Inl err \<Rightarrow> Inl err
      | Inr centers \<Rightarrow> Inr (error_metric data_normalized centers))"

definition retransform ::
  "nat \<Rightarrow> real list \<Rightarrow> real list \<Rightarrow> npfloat list \<Rightarrow> error + npfloat list list" where
  "retransform k data_min data_max X =
     (case broadcast np_multiply X (map2 (-) data_max data_min) of
        Inl err \<Rightarrow> Inl err
      | Inr P \<Rightarrow>
          (case broadcast np_add P data_min of
             Inl err \<Rightarrow> Inl err
           | Inr X2 \<Rightarrow> reshape_infer X2 k))"

text \<open>
  The whole function. \<^verbatim>\<open>np.array(data)\<close> raises for rows of different lengths.
  \<^verbatim>\<open>np.min(data_np, axis=0)\<close> (line 76) raises for a scalar array and for an array with
  no row or no element. For a one-dimensional array with elements, lines 76 to 82 go
  through and \<^verbatim>\<open>np.size(data_np, axis=1)\<close> (line 93) raises.
\<close>

definition create_cluster_problem ::
  "env \<Rightarrow> world \<Rightarrow> dataset_ref \<Rightarrow> nat \<Rightarrow> int \<Rightarrow> metric_ref
     \<Rightarrow> error + (problem \<times> (npfloat list \<Rightarrow> error + npfloat list list))" where
  "create_cluster_problem e w dataset k inst error_metric =
     (case load_dataset e w dataset of
        Inl err \<Rightarrow> Inl err
      | Inr (pid, data_np, label) \<Rightarrow>
          (case resolve_metric e error_metric of
             Inl err \<Rightarrow> Inl err
           | Inr m \<Rightarrow>
               (case data_np of
                  Array0 v \<Rightarrow>
                    Inl (AxisError ''axis 0 is out of bounds for array of dimension 0'')
                | Array1 xs \<Rightarrow>
                    (if xs = []
                     then Inl (ValueError ''zero-size array to reduction operation minimum'')
                     else Inl (IndexError ''tuple index out of range''))
                | Array2 data \<Rightarrow>
                    (if rectangular data
                     then (if data = []
                           then Inl (ValueError
                                  ''zero-size array to reduction operation minimum'')
                           else
                             (let data_min = np_tile (np_min_axis0 data) k;
                                  data_max = np_tile (np_max_axis0 data) k;
                                  data_normalized =
                                    normalize_rows (np_min_axis0 data) (np_max_axis0 data) data;
                                  f = wrap_problem
                                        (obj_func m data_normalized k (length (hd data)))
                                        (''Cluster_'' @ label @ ''_k'' @ str_nat k)
                                        OptimizationType_MIN ProblemClass_REAL 0 1 inst
                                        (k * length (hd data));
                                  f = (case pid of None \<Rightarrow> f | Some i \<Rightarrow> set_id f i)
                              in Inr (f, retransform k data_min data_max)))
                     else Inl (ValueError ''inhomogeneous shape'')))))"

text \<open>The value of the objective of the problem a call returns, at the point \<open>x\<close>.\<close>

fun objective_of ::
  "error + (problem \<times> (npfloat list \<Rightarrow> error + npfloat list list)) \<Rightarrow> npfloat list
     \<Rightarrow> error + npfloat" where
  "objective_of (Inl err) x = Inl err"
| "objective_of (Inr (f, r)) x = objective f x"

text \<open>The result of the retransform a call returns, at the point \<open>X\<close>.\<close>

fun retransform_of ::
  "error + (problem \<times> (npfloat list \<Rightarrow> error + npfloat list list)) \<Rightarrow> npfloat list
     \<Rightarrow> error + npfloat list list" where
  "retransform_of (Inl err) X = Inl err"
| "retransform_of (Inr (f, r)) X = r X"

subsection \<open>\<^verbatim>\<open>download_benchmark_datasets\<close>\<close>

text \<open>
  The result is the world after the call, with the exception when one was raised.
  \<^verbatim>\<open>os.makedirs(target, exist_ok=True)\<close> raises when the target is a file.
\<close>

definition extractall :: "(string \<times> file_content) list \<Rightarrow> string \<Rightarrow> world \<Rightarrow> world" where
  "extractall members target w =
     w\<lparr>files := map (\<lambda>(n, c). (target @ ''/'' @ n, c)) members @ files w,
       trace := trace w @ [ExtractAll target]\<rparr>"

definition download_benchmark_datasets :: "bool \<Rightarrow> world \<Rightarrow> error option \<times> world" where
  "download_benchmark_datasets warn w =
     (let target = ''banchmark_datasets'';
          branch = ''main''
      in if isdir w target \<and> warn
         then (None, w\<lparr>trace := trace w @
                 [Warning (''Attempting to download static folder but path '' @ target
                           @ '' already exists. Skipping...'')]\<rparr>)
         else if target \<in> set (map fst (files w))
         then (Some (FileExistsError target), w)
         else
           (let w1 = (if isdir w target then w else w\<lparr>dirs := target # dirs w\<rparr>);
                github_static_folder =
                  ''https://github.com/IOHprofiler/IOHClustering/blob/'' @ branch
                  @ ''/static.tar.gz?raw=true'';
                w2 = w1\<lparr>trace := trace w1 @
                       [Print (''Downloading static folder from '' @ github_static_folder
                               @ '' to '' @ target)]\<rparr>;
                w3 = w2\<lparr>trace := trace w2 @ [UrlOpen github_static_folder]\<rparr>
            in case map_of (remote w3) github_static_folder of
                 None \<Rightarrow> (Some (URLError github_static_folder), w3)
               | Some Malformed \<Rightarrow> (Some (TarError github_static_folder), w3)
               | Some (Archive members) \<Rightarrow> (None, extractall members target w3)))"

subsection \<open>\<^verbatim>\<open>get_problem\<close>\<close>

datatype fid = FidInt int | FidStr string

definition get_problem ::
  "env \<Rightarrow> world \<Rightarrow> fid \<Rightarrow> int \<Rightarrow> nat
     \<Rightarrow> error + (problem \<times> (npfloat list \<Rightarrow> error + npfloat list list))" where
  "get_problem e w fid inst k =
     (case (case fid of FidStr s \<Rightarrow> get_problem_id e s | FidInt n \<Rightarrow> Inr (Some n)) of
        Inl err \<Rightarrow> Inl err
      | Inr None \<Rightarrow> Inl (ValueError ''Unknown dataset id None'')
      | Inr (Some n) \<Rightarrow>
          (case map_of (CLUSTER_BASELINE_DATASETS e) n of
             None \<Rightarrow> Inl (ValueError (''Unknown dataset id '' @ str_int n))
           | Some dataset \<Rightarrow>
               (case map_of (CLUSTER_METRICS e) ''mse_euclidean'' of
                  None \<Rightarrow> Inl (KeyError ''mse_euclidean'')
                | Some m \<Rightarrow>
                    create_cluster_problem e w (DatasetName dataset) k inst
                      (MetricCallable m))))"

subsection \<open>\<^verbatim>\<open>load_problems\<close>\<close>

type_synonym problems =
  "(string \<times> (problem \<times> (npfloat list \<Rightarrow> error + npfloat list list))) list"

text \<open>\<^verbatim>\<open>problems[key] = value\<close> on a dictionary in insertion order.\<close>

fun dict_set :: "('k \<times> 'v) list \<Rightarrow> 'k \<Rightarrow> 'v \<Rightarrow> ('k \<times> 'v) list" where
  "dict_set [] key v = [(key, v)]"
| "dict_set ((k', v') # items) key v =
     (if k' = key then (k', v) # items else (k', v') # dict_set items key v)"

text \<open>The inner loop, over the cluster counts of one dataset.\<close>

fun load_k_values :: "env \<Rightarrow> world \<Rightarrow> string \<Rightarrow> nat list \<Rightarrow> problems \<Rightarrow> error + problems" where
  "load_k_values e w dataset [] problems = Inr problems"
| "load_k_values e w dataset (k # ks) problems =
     (case create_cluster_problem e w (DatasetName dataset) k 1 (MetricName ''mse_euclidean'') of
        Inl err \<Rightarrow> Inl err
      | Inr (p, r) \<Rightarrow> load_k_values e w dataset ks (dict_set problems (name p) (p, r)))"

text \<open>The outer loop, over the names of the catalog.\<close>

fun load_datasets :: "env \<Rightarrow> world \<Rightarrow> string list \<Rightarrow> problems \<Rightarrow> error + problems" where
  "load_datasets e w [] problems = Inr problems"
| "load_datasets e w (dataset # rest) problems =
     (if dataset @ ''.txt'' \<in> set (listdir w ''banchmark_datasets'')
      then (case map_of (BASELINE_K_DIMENTIONS e) dataset of
              None \<Rightarrow> Inl (KeyError dataset)
            | Some ks \<Rightarrow>
                (case load_k_values e w dataset ks problems of
                   Inl err \<Rightarrow> Inl err
                 | Inr problems' \<Rightarrow> load_datasets e w rest problems'))
      else load_datasets e w rest problems)"

definition load_problems :: "env \<Rightarrow> world \<Rightarrow> (error + problems) \<times> world" where
  "load_problems e w =
     (case download_benchmark_datasets False w of
        (Some err, w') \<Rightarrow> (Inl err, w')
      | (None, w') \<Rightarrow>
          (load_datasets e w' (map snd (CLUSTER_BASELINE_DATASETS e)) [], w'))"

subsection \<open>The metric \<^verbatim>\<open>mse_euclidean\<close>\<close>

text \<open>
  Modelled from the spec: the function \<^verbatim>\<open>mse_euclidean\<close> of the module
  \<^verbatim>\<open>cluster_metrics\<close>, which is not among the sources. The specification (4.1) gives it as
  the mean, over the points of the normalized data, of the squared Euclidean distance
  from the point to its nearest supplied center. A nan or an infinity among the data or
  the centers, or an empty set of centers, makes the value nan.
\<close>

fun finite_value :: "npfloat \<Rightarrow> real option" where
  "finite_value (Finite a) = Some a"
| "finite_value NaN = None"
| "finite_value PosInf = None"
| "finite_value NegInf = None"

definition finite_rows :: "npfloat list list \<Rightarrow> real list list option" where
  "finite_rows rows = those (map (\<lambda>r. those (map finite_value r)) rows)"

definition sqeuclidean :: "real list \<Rightarrow> real list \<Rightarrow> real" where
  "sqeuclidean p c = sum_list (map2 (\<lambda>a b. (a - b)\<^sup>2) p c)"

definition nearest :: "real list \<Rightarrow> real list list \<Rightarrow> real" where
  "nearest p centers =
     foldl min (sqeuclidean p (hd centers)) (map (sqeuclidean p) (tl centers))"

definition mse_euclidean :: metric where
  "mse_euclidean data centers =
     (case finite_rows data of
        None \<Rightarrow> NaN
      | Some ps \<Rightarrow>
          (case finite_rows centers of
             None \<Rightarrow> NaN
           | Some cs \<Rightarrow>
               (if cs = [] then NaN
                else if ps = [] then NaN
                else Finite (sum_list (map (\<lambda>p. nearest p cs) ps) / real (length ps)))))"

subsection \<open>Concrete catalogs, registries and file systems\<close>

definition example_env :: env where
  "example_env =
     \<lparr> CLUSTER_METRICS = [(''mse_euclidean'', mse_euclidean)],
       CLUSTER_BASELINE_DATASETS = [(1, ''iris''), (2, ''glass'')],
       BASELINE_K_DIMENTIONS = [(''iris'', [2, 3]), (''glass'', [2])] \<rparr>"

definition static_url :: string where
  "static_url = ''https://github.com/IOHprofiler/IOHClustering/blob/main/static.tar.gz?raw=true''"

definition iris_table :: "real list list" where
  "iris_table = [[1, 10], [3, 30], [2, 50]]"

definition local_table :: "real list list" where
  "local_table = [[0, 0], [2, 2], [4, 4]]"

text \<open>A dataset whose first feature is constant.\<close>

definition constant_table :: "real list list" where
  "constant_table = [[1, 0], [1, 2]]"

text \<open>Nothing on disk yet; the archive holds the file of one catalog dataset.\<close>

definition fresh_world :: world where
  "fresh_world =
     \<lparr> dirs = [], files = [],
       remote = [(static_url, Archive [(''iris.txt'', NumericTable iris_table)])],
       trace = [] \<rparr>"

text \<open>
  The benchmark-data directory is there, with one dataset, and a file \<^verbatim>\<open>mine.txt\<close> lies
  in the working directory.
\<close>

definition populated_world :: world where
  "populated_world =
     \<lparr> dirs = [''banchmark_datasets''],
       files = [(''banchmark_datasets/iris.txt'', NumericTable iris_table),
                (''mine.txt'', NumericTable local_table)],
       remote = [(static_url, Archive [(''iris.txt'', NumericTable iris_table)])],
       trace = [] \<rparr>"

text \<open>A file with one column and a file with one row lie in the working directory.\<close>

definition squeezed_world :: world where
  "squeezed_world =
     \<lparr> dirs = [],
       files = [(''col.txt'', NumericTable [[1], [2], [3]]),
                (''row.txt'', NumericTable [[1, 2, 3]])],
       remote = [], trace = [] \<rparr>"

section \<open>Properties\<close>

subsection \<open>Lists as arrays\<close>

lemma length_foldl_map2:
  "list_all (\<lambda>r. length r = length acc) rows \<Longrightarrow> length (foldl (map2 f) acc rows) = length acc"
  by (induction rows arbitrary: acc) auto

lemma rectangular_tl:
  "rectangular data \<Longrightarrow> data \<noteq> [] \<Longrightarrow> list_all (\<lambda>r. length r = length (hd data)) (tl data)"
  by (cases data) (auto simp: rectangular_def)

lemma length_np_min_axis0:
  "rectangular data \<Longrightarrow> data \<noteq> [] \<Longrightarrow> length (np_min_axis0 data) = length (hd data)"
  by (simp add: np_min_axis0_def length_foldl_map2 rectangular_tl)

lemma length_np_max_axis0:
  "rectangular data \<Longrightarrow> data \<noteq> [] \<Longrightarrow> length (np_max_axis0 data) = length (hd data)"
  by (simp add: np_max_axis0_def length_foldl_map2 rectangular_tl)

lemma length_concat_rows:
  "list_all (\<lambda>row. length row = w) C \<Longrightarrow> length (concat C) = length C * w"
  by (induction C) auto

lemma split_rows_concat:
  "list_all (\<lambda>row. length row = w) C \<Longrightarrow> split_rows (length C) w (concat C) = C"
  by (induction C) auto

lemma map2_concat_tile:
  "list_all (\<lambda>row. length row = length v) C \<Longrightarrow>
     map2 f (concat C) (np_tile v (length C)) = concat (map (\<lambda>row. map2 f row v) C)"
  by (induction C) (auto simp: np_tile_def)

lemma map2_tile_tile:
  "length a = length b \<Longrightarrow> map2 f (np_tile a k) (np_tile b k) = np_tile (map2 f a b) k"
  by (induction k) (auto simp: np_tile_def)

lemma length_np_tile: "length (np_tile v k) = k * length v"
  by (induction k) (auto simp: np_tile_def)

text \<open>The column minimum is below every entry of its column, the maximum above.\<close>

lemma foldl_map2_min_le:
  "list_all (\<lambda>r. length r = length acc) rows \<Longrightarrow> j < length acc \<Longrightarrow>
     foldl (map2 min) acc rows ! j \<le> (acc ! j :: real)
     \<and> list_all (\<lambda>r. foldl (map2 min) acc rows ! j \<le> r ! j) rows"
proof (induction rows arbitrary: acc)
  case Nil
  then show ?case by simp
next
  case (Cons r rows)
  let ?acc = "map2 min acc r"
  from Cons.prems have l: "length ?acc = length acc" "length r = length acc"
    by simp_all
  from Cons.prems l have "list_all (\<lambda>r. length r = length ?acc) rows" "j < length ?acc"
    by simp_all
  from Cons.IH [OF this] have
    a: "foldl (map2 min) ?acc rows ! j \<le> ?acc ! j"
    and b: "list_all (\<lambda>r. foldl (map2 min) ?acc rows ! j \<le> r ! j) rows"
    by simp_all
  from Cons.prems l have "?acc ! j = min (acc ! j) (r ! j)"
    by simp
  with a b show ?case by simp
qed

lemma foldl_map2_max_ge:
  "list_all (\<lambda>r. length r = length acc) rows \<Longrightarrow> j < length acc \<Longrightarrow>
     (acc ! j :: real) \<le> foldl (map2 max) acc rows ! j
     \<and> list_all (\<lambda>r. r ! j \<le> foldl (map2 max) acc rows ! j) rows"
proof (induction rows arbitrary: acc)
  case Nil
  then show ?case by simp
next
  case (Cons r rows)
  let ?acc = "map2 max acc r"
  from Cons.prems have l: "length ?acc = length acc" "length r = length acc"
    by simp_all
  from Cons.prems l have "list_all (\<lambda>r. length r = length ?acc) rows" "j < length ?acc"
    by simp_all
  from Cons.IH [OF this] have
    a: "?acc ! j \<le> foldl (map2 max) ?acc rows ! j"
    and b: "list_all (\<lambda>r. r ! j \<le> foldl (map2 max) ?acc rows ! j) rows"
    by simp_all
  from Cons.prems l have "?acc ! j = max (acc ! j) (r ! j)"
    by simp
  with a b show ?case by simp
qed

lemma np_min_axis0_le:
  assumes "rectangular data" "data \<noteq> []" "n < length data" "j < length (hd data)"
  shows "np_min_axis0 data ! j \<le> data ! n ! j"
proof -
  from assms obtain r rows where d: "data = r # rows"
    by (cases data) auto
  with assms have "list_all (\<lambda>x. length x = length r) rows" "j < length r"
    by (simp_all add: rectangular_def)
  from foldl_map2_min_le [OF this] have
    a: "foldl (map2 min) r rows ! j \<le> r ! j"
    and b: "list_all (\<lambda>x. foldl (map2 min) r rows ! j \<le> x ! j) rows"
    by simp_all
  show ?thesis
  proof (cases n)
    case 0
    with a d show ?thesis by (simp add: np_min_axis0_def)
  next
    case (Suc n')
    with assms d have "rows ! n' \<in> set rows" by simp
    with b have "foldl (map2 min) r rows ! j \<le> rows ! n' ! j"
      by (simp add: list_all_iff)
    with d Suc show ?thesis by (simp add: np_min_axis0_def)
  qed
qed

lemma np_max_axis0_ge:
  assumes "rectangular data" "data \<noteq> []" "n < length data" "j < length (hd data)"
  shows "data ! n ! j \<le> np_max_axis0 data ! j"
proof -
  from assms obtain r rows where d: "data = r # rows"
    by (cases data) auto
  with assms have "list_all (\<lambda>x. length x = length r) rows" "j < length r"
    by (simp_all add: rectangular_def)
  from foldl_map2_max_ge [OF this] have
    a: "r ! j \<le> foldl (map2 max) r rows ! j"
    and b: "list_all (\<lambda>x. x ! j \<le> foldl (map2 max) r rows ! j) rows"
    by simp_all
  show ?thesis
  proof (cases n)
    case 0
    with a d show ?thesis by (simp add: np_max_axis0_def)
  next
    case (Suc n')
    with assms d have "rows ! n' \<in> set rows" by simp
    with b have "rows ! n' ! j \<le> foldl (map2 max) r rows ! j"
      by (simp add: list_all_iff)
    with d Suc show ?thesis by (simp add: np_max_axis0_def)
  qed
qed

subsection \<open>What a successful call returns\<close>

lemma create_loaded:
  assumes "load_dataset e w dataset = Inr (pid, Array2 data, label)"
    and "rectangular data" and "data \<noteq> []"
    and "resolve_metric e m = Inr metric"
  shows "\<exists>f. create_cluster_problem e w dataset k i m
            = Inr (f, retransform k (np_tile (np_min_axis0 data) k)
                        (np_tile (np_max_axis0 data) k))
          \<and> objective f
              = obj_func metric
                  (normalize_rows (np_min_axis0 data) (np_max_axis0 data) data) k
                  (length (hd data))"
  using assms
  by (cases pid)
    (simp_all add: create_cluster_problem_def wrap_problem_def set_id_def Let_def)

lemma create_explicit:
  assumes "load_dataset e w dataset = Inr (pid, Array2 data, label)"
    and "resolve_metric e m = Inr metric"
    and "rectangular data" and "data \<noteq> []"
  shows "create_cluster_problem e w dataset k i m
     = Inr (case pid of
              None \<Rightarrow>
                wrap_problem
                  (obj_func metric (normalize_rows (np_min_axis0 data) (np_max_axis0 data) data)
                     k (length (hd data)))
                  (''Cluster_'' @ label @ ''_k'' @ str_nat k)
                  OptimizationType_MIN ProblemClass_REAL 0 1 i (k * length (hd data))
            | Some n \<Rightarrow>
                set_id
                  (wrap_problem
                    (obj_func metric (normalize_rows (np_min_axis0 data) (np_max_axis0 data) data)
                       k (length (hd data)))
                    (''Cluster_'' @ label @ ''_k'' @ str_nat k)
                    OptimizationType_MIN ProblemClass_REAL 0 1 i (k * length (hd data))) n,
            retransform k (np_tile (np_min_axis0 data) k) (np_tile (np_max_axis0 data) k))"
  using assms by (cases pid) (simp_all add: create_cluster_problem_def Let_def)

lemma create_success_parts:
  assumes "create_cluster_problem e w dataset k i m = Inr (f, r)"
  shows "\<exists>pid data label metric. load_dataset e w dataset = Inr (pid, Array2 data, label)
           \<and> resolve_metric e m = Inr metric \<and> rectangular data \<and> data \<noteq> []"
proof (cases "load_dataset e w dataset")
  case (Inl err)
  with assms show ?thesis
    by (simp add: create_cluster_problem_def)
next
  case (Inr x)
  obtain pid data_np label where x: "x = (pid, data_np, label)"
    by (cases x) auto
  show ?thesis
  proof (cases "resolve_metric e m")
    case (Inl err)
    with assms Inr x show ?thesis
      by (simp add: create_cluster_problem_def)
  next
    case (Inr metric)
    with assms \<open>load_dataset e w dataset = Inr x\<close> x show ?thesis
      by (cases data_np) (simp_all add: create_cluster_problem_def split: if_splits)
  qed
qed

lemma load_dataset_array:
  "load_dataset e w (DatasetArray data) = Inr (None, Array2 data, ''custom'')"
  by (simp add: load_dataset_def)

lemma succeeds_Inr: "succeeds x \<Longrightarrow> x = Inr (projr x)"
  by (cases x) auto

lemma resolve_example_metric:
  "resolve_metric example_env (MetricName ''mse_euclidean'') = Inr mse_euclidean"
  by (simp add: resolve_metric_def example_env_def)

lemma str_nat_digits: "str_nat 1 = ''1''" "str_nat 2 = ''2''" "str_nat 3 = ''3''"
  by code_simp+

subsection \<open>The round trip\<close>

lemma elementwise_round_trip:
  assumes "length c = length mn" and "length mx = length mn"
    and "\<forall>j<length mn. mx ! j \<noteq> mn ! j"
  shows "map2 np_add
           (map2 np_multiply (map2 np_divide (map2 (-) c mn) (map2 (-) mx mn)) (map2 (-) mx mn))
           mn
         = map Finite c"
  using assms by (auto simp add: list_eq_iff_nth_eq np_divide_def)

lemma retransform_normalize_rows:
  assumes len: "length mx = length mn"
    and range: "\<forall>j<length mn. mx ! j \<noteq> mn ! j"
    and k: "1 \<le> k" "length C = k"
    and rows: "list_all (\<lambda>row. length row = length mn) C"
  shows "retransform k (np_tile mn k) (np_tile mx k) (concat (normalize_rows mn mx C))
         = Inr (map (map Finite) C)"
proof -
  let ?d = "map2 (-) mx mn"
  let ?N = "normalize_rows mn mx C"
  have ld: "length ?d = length mn"
    using len by simp
  have nrows: "list_all (\<lambda>row. length row = length ?d) ?N"
    using rows len by (simp add: normalize_rows_def list_all_iff)
  have lN: "length ?N = k"
    using k by (simp add: normalize_rows_def)
  have d: "map2 (-) (np_tile mx k) (np_tile mn k) = np_tile ?d k"
    using len by (simp add: map2_tile_tile)
  have lX: "length (concat ?N) = k * length mn"
    using length_concat_rows [OF nrows] lN ld by simp
  have step1: "broadcast np_multiply (concat ?N) (np_tile ?d k)
       = Inr (concat (map (\<lambda>row. map2 np_multiply row ?d) ?N))"
    using map2_concat_tile [OF nrows, of np_multiply] lN lX ld
    by (simp add: broadcast_def length_np_tile)
  let ?P = "map (\<lambda>row. map2 np_multiply row ?d) ?N"
  have prows: "list_all (\<lambda>row. length row = length mn) ?P"
    using rows len by (simp add: normalize_rows_def list_all_iff)
  have lP: "length ?P = k"
    using lN by simp
  have lcP: "length (concat ?P) = k * length mn"
    using length_concat_rows [OF prows] lP by simp
  have step2: "broadcast np_add (concat ?P) (np_tile mn k)
       = Inr (concat (map (\<lambda>row. map2 np_add row mn) ?P))"
    using map2_concat_tile [OF prows, of np_add] lP lcP
    by (simp add: broadcast_def length_np_tile)
  have rt: "map (\<lambda>row. map2 np_add row mn) ?P = map (map Finite) C"
  proof -
    have "\<And>row. row \<in> set C \<Longrightarrow>
        map2 np_add (map2 np_multiply (map2 np_divide (map2 (-) row mn) ?d) ?d) mn
        = map Finite row"
      using rows len range by (intro elementwise_round_trip) (simp_all add: list_all_iff)
    then show ?thesis
      by (simp add: normalize_rows_def)
  qed
  have frows: "list_all (\<lambda>row. length row = length mn) (map (map Finite) C)"
    using rows by (simp add: list_all_iff)
  have lF: "length (map (map Finite) C) = k"
    using k by simp
  have step3: "reshape_infer (concat (map (map Finite) C)) k = Inr (map (map Finite) C)"
    using split_rows_concat [OF frows] length_concat_rows [OF frows] lF k
    by (simp add: reshape_infer_def reshape_def)
  show ?thesis
    by (simp only: retransform_def d step1 step2 rt step3 sum.case)
qed

lemma iris_min_max:
  "np_min_axis0 iris_table = [1, 10]" "np_max_axis0 iris_table = [3, 50]"
  "rectangular iris_table" "iris_table \<noteq> []" "length (hd iris_table) = 2"
  by (simp_all add: np_min_axis0_def np_max_axis0_def iris_table_def rectangular_def)

text \<open>
  C1. Let \<open>create_cluster_problem\<close> return a problem and a retransform for a dataset
  matrix of dtype float64 (passed as an array, or returned by \<^verbatim>\<open>np.loadtxt\<close> as a
  two-dimensional array) with \<open>F \<ge> 1\<close> features, each of nonzero range, and a cluster
  count \<open>k \<ge> 1\<close>. Then the retransform inverts the normalization followed by the
  row-major flattening: on the flattened normalization of a matrix \<open>C\<close> of \<open>k\<close> centers
  with \<open>F\<close> features each, it returns \<open>C\<close>. The equality is exact in real arithmetic,
  which is the claim's equality up to the rounding of floating-point numbers.
\<close>

theorem retransform_inverts_normalization:
  assumes "load_dataset e w dataset = Inr (pid, Array2 data, label)"
    and "create_cluster_problem e w dataset k i m = Inr (f, r)"
    and "1 \<le> length (hd data)"
    and "\<forall>j<length (hd data). np_max_axis0 data ! j \<noteq> np_min_axis0 data ! j"
    and "1 \<le> k" and "length C = k"
    and "list_all (\<lambda>row. length row = length (hd data)) C"
  shows "r (concat (normalize_centers data C)) = Inr (map (map Finite) C)"
proof -
  from create_success_parts [OF assms(2)] assms(1) obtain metric where
    m: "resolve_metric e m = Inr metric" and d: "rectangular data" "data \<noteq> []"
    by auto
  from create_loaded [OF assms(1) d m, of k i] assms(2) have
    r: "r = retransform k (np_tile (np_min_axis0 data) k) (np_tile (np_max_axis0 data) k)"
    by auto
  have l: "length (np_min_axis0 data) = length (hd data)"
    "length (np_max_axis0 data) = length (hd data)"
    using d by (simp_all add: length_np_min_axis0 length_np_max_axis0)
  have "retransform k (np_tile (np_min_axis0 data) k) (np_tile (np_max_axis0 data) k)
          (concat (normalize_rows (np_min_axis0 data) (np_max_axis0 data) C))
        = Inr (map (map Finite) C)"
    using assms(4-7) l by (intro retransform_normalize_rows) simp_all
  then show ?thesis
    by (simp only: r normalize_centers_def)
qed

theorem retransform_inverts_normalization_witness:
  "load_dataset example_env fresh_world (DatasetArray iris_table)
     = Inr (None, Array2 iris_table, ''custom'')
   \<and> succeeds (create_cluster_problem example_env fresh_world (DatasetArray iris_table) 2 1
        (MetricName ''mse_euclidean''))
   \<and> length (hd iris_table) = 2
   \<and> np_max_axis0 iris_table ! 0 \<noteq> np_min_axis0 iris_table ! 0
   \<and> np_max_axis0 iris_table ! 1 \<noteq> np_min_axis0 iris_table ! 1
   \<and> list_all (\<lambda>row. length row = length (hd iris_table)) [[5, 7], [2, 20 :: real]]
   \<and> concat (normalize_centers iris_table [[5, 7], [2, 20]])
       = [Finite 2, Finite (- 3 / 40), Finite (1 / 2), Finite (1 / 4)]
   \<and> snd (projr (create_cluster_problem example_env fresh_world (DatasetArray iris_table) 2 1
        (MetricName ''mse_euclidean'')))
        (concat (normalize_centers iris_table [[5, 7], [2, 20]]))
       = Inr [[Finite 5, Finite 7], [Finite 2, Finite 20]]"
proof -
  let ?X = "create_cluster_problem example_env fresh_world (DatasetArray iris_table) 2 1
    (MetricName ''mse_euclidean'')"
  have s: "succeeds ?X"
    using create_loaded [OF load_dataset_array iris_min_max(3,4) resolve_example_metric,
        of fresh_world 2 1]
    by auto
  then have x: "?X = Inr (fst (projr ?X), snd (projr ?X))"
    using succeeds_Inr [of ?X] by simp
  have a: "1 \<le> length (hd iris_table)"
    by (simp add: iris_min_max)
  have b: "\<forall>j<length (hd iris_table). np_max_axis0 iris_table ! j \<noteq> np_min_axis0 iris_table ! j"
    by (simp add: iris_min_max less_Suc_eq numeral_2_eq_2)
  have c: "list_all (\<lambda>row. length row = length (hd iris_table)) [[5, 7], [2, 20 :: real]]"
    by (simp add: iris_min_max)
  have d: "concat (normalize_centers iris_table [[5, 7], [2, 20]])
       = [Finite 2, Finite (- 3 / 40), Finite (1 / 2), Finite (1 / 4)]"
    by (simp add: normalize_centers_def iris_min_max normalize_rows_def np_divide_def)
  have t: "snd (projr ?X) (concat (normalize_centers iris_table [[5, 7], [2, 20]]))
       = Inr (map (map Finite) [[5, 7], [2, 20]])"
    by (rule retransform_inverts_normalization [OF load_dataset_array x a b _ _ c]) simp_all
  have u: "np_max_axis0 iris_table ! 0 \<noteq> np_min_axis0 iris_table ! 0"
    "np_max_axis0 iris_table ! 1 \<noteq> np_min_axis0 iris_table ! 1"
    by (simp_all add: iris_min_max)
  from t have t': "snd (projr ?X) (concat (normalize_centers iris_table [[5, 7], [2, 20]]))
       = Inr [[Finite 5, Finite 7], [Finite 2, Finite 20]]"
    by (simp only: list.map)
  show ?thesis
    by (intro conjI) (rule load_dataset_array s iris_min_max(5) u c d t')+
qed

subsection \<open>Constant features\<close>

lemma constant_column_nan:
  assumes r: "rectangular data" "data \<noteq> []" and n: "n < length data"
    and j: "j < length (hd data)"
    and c: "np_max_axis0 data ! j = np_min_axis0 data ! j"
  shows "normalize_rows (np_min_axis0 data) (np_max_axis0 data) data ! n ! j = NaN"
proof -
  have "np_min_axis0 data ! j \<le> data ! n ! j" "data ! n ! j \<le> np_max_axis0 data ! j"
    using r n j by (rule np_min_axis0_le, rule np_max_axis0_ge)
  with c have e: "data ! n ! j = np_min_axis0 data ! j"
    by simp
  from r n have "length (data ! n) = length (hd data)"
    by (simp add: rectangular_def list_all_length)
  with r n j e c show ?thesis
    by (simp add: normalize_rows_def length_np_min_axis0 length_np_max_axis0 np_divide_def)
qed

lemma constant_min_max:
  "np_min_axis0 constant_table = [1, 0]" "np_max_axis0 constant_table = [1, 2]"
  "rectangular constant_table" "constant_table \<noteq> []" "length (hd constant_table) = 2"
  "length constant_table = 2"
  by (simp_all add: np_min_axis0_def np_max_axis0_def constant_table_def rectangular_def)

text \<open>
  C2. The code at a dataset whose first feature is constant, \<open>[[1,0],[1,2]]\<close>, with
  \<open>k = 1\<close>: the range of the first feature is zero, the call raises nothing and returns
  a problem, and the division by the zero range makes the first column of the normalized
  data nan, outside the range from 0 to 1 that the comment of line 75 and the docstring
  give. The objective evaluates the metric on that data.
\<close>

theorem constant_feature_evaluated:
  "np_max_axis0 constant_table ! 0 = np_min_axis0 constant_table ! 0
   \<and> succeeds (create_cluster_problem example_env fresh_world (DatasetArray constant_table) 1 1
        (MetricName ''mse_euclidean''))
   \<and> normalize_rows (np_min_axis0 constant_table) (np_max_axis0 constant_table) constant_table
       = [[NaN, Finite 0], [NaN, Finite 1]]
   \<and> objective_of
        (create_cluster_problem example_env fresh_world (DatasetArray constant_table) 1 1
           (MetricName ''mse_euclidean'')) [Finite 0, Finite 1]
       = Inr (mse_euclidean [[NaN, Finite 0], [NaN, Finite 1]] [[Finite 0, Finite 1]])"
proof -
  let ?X = "create_cluster_problem example_env fresh_world (DatasetArray constant_table) 1 1
    (MetricName ''mse_euclidean'')"
  from create_loaded [OF load_dataset_array constant_min_max(3,4) resolve_example_metric,
      of fresh_world 1 1]
  obtain f where x: "?X = Inr (f, retransform 1 (np_tile (np_min_axis0 constant_table) 1)
        (np_tile (np_max_axis0 constant_table) 1))"
    and o: "objective f
      = obj_func mse_euclidean
          (normalize_rows (np_min_axis0 constant_table) (np_max_axis0 constant_table)
             constant_table) 1 (length (hd constant_table))"
    by blast
  have n: "normalize_rows (np_min_axis0 constant_table) (np_max_axis0 constant_table)
       constant_table = [[NaN, Finite 0], [NaN, Finite 1]]"
    by (simp add: constant_min_max) (simp add: constant_table_def normalize_rows_def np_divide_def)
  have s: "succeeds ?X"
    by (simp only: x succeeds.simps)
  have v: "objective_of ?X [Finite 0, Finite 1]
       = Inr (mse_euclidean [[NaN, Finite 0], [NaN, Finite 1]] [[Finite 0, Finite 1]])"
    by (simp only: x objective_of.simps o n)
      (simp add: constant_min_max(5) obj_func_def reshape_def)
  have c: "np_max_axis0 constant_table ! 0 = np_min_axis0 constant_table ! 0"
    by (simp add: constant_min_max)
  show ?thesis
    by (intro conjI) (rule c s n v)+
qed

subsection \<open>Populating the benchmark-data directory\<close>

lemma snd_load_problems:
  "snd (load_problems e w) = snd (download_benchmark_datasets False w)"
  by (simp add: load_problems_def split: prod.splits option.splits)

text \<open>
  C3. The population of the benchmark-data directory, evaluated. When the directory
  \<^verbatim>\<open>banchmark_datasets\<close> is absent, it is created and the archive is downloaded and
  extracted into it. When it exists: with \<open>warn = True\<close> the call warns and fetches
  nothing; with \<open>warn = False\<close>, which is what \<open>load_problems\<close> passes, the archive is
  downloaded and extracted again.
\<close>

theorem download_with_existing_directory:
  "dirs (snd (download_benchmark_datasets False fresh_world)) = [''banchmark_datasets'']
   \<and> files (snd (download_benchmark_datasets False fresh_world))
       = [(''banchmark_datasets/iris.txt'', NumericTable iris_table)]
   \<and> isdir populated_world ''banchmark_datasets''
   \<and> trace (snd (download_benchmark_datasets True populated_world))
       = [Warning ''Attempting to download static folder but path banchmark_datasets already exists. Skipping...'']
   \<and> trace (snd (download_benchmark_datasets False populated_world))
       = [Print (''Downloading static folder from '' @ static_url @ '' to banchmark_datasets''),
          UrlOpen static_url, ExtractAll ''banchmark_datasets'']
   \<and> trace (snd (load_problems example_env populated_world))
       = [Print (''Downloading static folder from '' @ static_url @ '' to banchmark_datasets''),
          UrlOpen static_url, ExtractAll ''banchmark_datasets'']"
  by (simp add: snd_load_problems download_benchmark_datasets_def isdir_def populated_world_def
      fresh_world_def static_url_def extractall_def Let_def)

subsection \<open>Metadata\<close>

lemma squeeze_tables:
  "rectangular local_table" "np_squeeze local_table = Array2 local_table"
  "rectangular iris_table" "np_squeeze iris_table = Array2 iris_table"
  by (simp_all add: np_squeeze_def local_table_def iris_table_def rectangular_def)

lemma load_mine:
  "load_dataset example_env populated_world (DatasetName ''mine'')
     = Inr (None, Array2 local_table, ''mine'')"
  by (simp add: load_dataset_def populated_world_def path_exists_def loadtxt_def squeeze_tables)

lemma local_min_max:
  "np_min_axis0 local_table = [0, 0]" "np_max_axis0 local_table = [4, 4]"
  "rectangular local_table" "local_table \<noteq> []" "length (hd local_table) = 2"
  by (simp_all add: np_min_axis0_def np_max_axis0_def local_table_def rectangular_def)

text \<open>
  C4. When \<open>create_cluster_problem\<close> succeeds, for a dataset with the label \<open>L\<close> (the
  name passed, or "custom" for an array) and \<open>F\<close> features, a cluster count \<open>k\<close> and an
  instance number \<open>i\<close>, the problem returned has the name \<open>Cluster_L_kk\<close>, the dimension
  \<open>k * F\<close>, the lower bound 0 and the upper bound 1 in each of the \<open>k * F\<close> dimensions,
  the optimization direction "minimize" and the instance number \<open>i\<close>.
\<close>

theorem problem_metadata:
  assumes "load_dataset e w dataset = Inr (pid, data_np, label)"
    and "create_cluster_problem e w dataset k i m = Inr (f, r)"
  shows "\<exists>data. data_np = Array2 data
     \<and> name f = ''Cluster_'' @ label @ ''_k'' @ str_nat k
     \<and> label = (case dataset of DatasetName s \<Rightarrow> s | DatasetArray a \<Rightarrow> ''custom'')
     \<and> rectangular data \<and> data \<noteq> []
     \<and> dimension f = k * length (hd data)
     \<and> lb f = replicate (k * length (hd data)) 0
     \<and> ub f = replicate (k * length (hd data)) 1
     \<and> optimization_type f = OptimizationType_MIN
     \<and> instance_number f = i"
proof -
  from create_success_parts [OF assms(2)] assms(1) obtain data metric where
    a: "data_np = Array2 data"
    and m: "resolve_metric e m = Inr metric" and d: "rectangular data" "data \<noteq> []"
    by auto
  from assms(1) a have l: "load_dataset e w dataset = Inr (pid, Array2 data, label)"
    by simp
  from l have lab: "label = (case dataset of DatasetName s \<Rightarrow> s | DatasetArray a \<Rightarrow> ''custom'')"
    by (cases dataset) (auto simp add: load_dataset_def split: sum.splits if_splits)
  from create_explicit [OF l m d, of k i] assms(2) have
    "name f = ''Cluster_'' @ label @ ''_k'' @ str_nat k"
    "dimension f = k * length (hd data)"
    "lb f = replicate (k * length (hd data)) 0"
    "ub f = replicate (k * length (hd data)) 1"
    "optimization_type f = OptimizationType_MIN"
    "instance_number f = i"
    by (cases pid; simp add: wrap_problem_def set_id_def)+
  with a lab d show ?thesis
    by (intro exI [of _ data]) (simp only: simp_thms)
qed

theorem problem_metadata_witness:
  "load_dataset example_env populated_world (DatasetName ''mine'')
     = Inr (None, Array2 local_table, ''mine'')
   \<and> succeeds (create_cluster_problem example_env populated_world (DatasetName ''mine'') 3 7
        (MetricName ''mse_euclidean''))
   \<and> name (fst (projr (create_cluster_problem example_env populated_world (DatasetName ''mine'')
        3 7 (MetricName ''mse_euclidean'')))) = ''Cluster_mine_k3''
   \<and> dimension (fst (projr (create_cluster_problem example_env populated_world
        (DatasetName ''mine'') 3 7 (MetricName ''mse_euclidean'')))) = 6
   \<and> lb (fst (projr (create_cluster_problem example_env populated_world
        (DatasetName ''mine'') 3 7 (MetricName ''mse_euclidean'')))) = [0, 0, 0, 0, 0, 0]
   \<and> ub (fst (projr (create_cluster_problem example_env populated_world
        (DatasetName ''mine'') 3 7 (MetricName ''mse_euclidean'')))) = [1, 1, 1, 1, 1, 1]
   \<and> instance_number (fst (projr (create_cluster_problem example_env populated_world
        (DatasetName ''mine'') 3 7 (MetricName ''mse_euclidean'')))) = 7"
proof -
  let ?X = "create_cluster_problem example_env populated_world (DatasetName ''mine'') 3 7
    (MetricName ''mse_euclidean'')"
  have s: "succeeds ?X"
    using create_loaded [OF load_mine local_min_max(3,4) resolve_example_metric, of 3 7]
    by auto
  then have x: "?X = Inr (fst (projr ?X), snd (projr ?X))"
    using succeeds_Inr [of ?X] by simp
  have rep: "replicate 6 (0::real) = [0, 0, 0, 0, 0, 0]"
    "replicate 6 (1::real) = [1, 1, 1, 1, 1, 1]"
    by (simp_all add: numeral_eq_Suc)
  from problem_metadata [OF load_mine x] s show ?thesis
    by (simp add: load_mine local_min_max str_nat_digits rep)
qed

subsection \<open>Resolving the metric\<close>

lemma create_no_problem_without_metric:
  "map_of (CLUSTER_METRICS e) nm = None \<Longrightarrow>
     \<not> succeeds (create_cluster_problem e w dataset k i (MetricName nm))"
  by (simp add: create_cluster_problem_def resolve_metric_def split: sum.splits prod.splits)

text \<open>
  C5 (as amended). For a string \<open>error_metric\<close> that is not a key of the registry,
  \<open>create_cluster_problem\<close> constructs no problem, and whenever the dataset reference
  is loaded it fails with the error "Unknown metric": the dataset is loaded before the
  metric is looked up, so a failure of the loading is the error raised instead. For a
  registered name the call is the call with the function stored under that name.
\<close>

theorem unregistered_metric_fails:
  "(nm \<notin> set (map fst (CLUSTER_METRICS e)) \<longrightarrow>
      \<not> succeeds (create_cluster_problem e w dataset k i (MetricName nm))
      \<and> (succeeds (load_dataset e w dataset) \<longrightarrow>
           create_cluster_problem e w dataset k i (MetricName nm) = Inl (UnknownMetric nm)))
   \<and> (map_of (CLUSTER_METRICS e) nm = Some m \<longrightarrow>
        resolve_metric e (MetricName nm) = Inr m
        \<and> create_cluster_problem e w dataset k i (MetricName nm)
            = create_cluster_problem e w dataset k i (MetricCallable m))"
proof (intro conjI impI)
  assume "nm \<notin> set (map fst (CLUSTER_METRICS e))"
  then have n: "map_of (CLUSTER_METRICS e) nm = None"
    by (simp add: map_of_eq_None_iff)
  from n show "\<not> succeeds (create_cluster_problem e w dataset k i (MetricName nm))"
    by (rule create_no_problem_without_metric)
  assume "succeeds (load_dataset e w dataset)"
  then obtain x where "load_dataset e w dataset = Inr x"
    by (cases "load_dataset e w dataset") auto
  with n show "create_cluster_problem e w dataset k i (MetricName nm) = Inl (UnknownMetric nm)"
    by (simp add: create_cluster_problem_def resolve_metric_def UnknownMetric_def
        split: prod.splits)
next
  assume "map_of (CLUSTER_METRICS e) nm = Some m"
  then show "resolve_metric e (MetricName nm) = Inr m"
    by (simp add: resolve_metric_def)
next
  assume "map_of (CLUSTER_METRICS e) nm = Some m"
  then show "create_cluster_problem e w dataset k i (MetricName nm)
            = create_cluster_problem e w dataset k i (MetricCallable m)"
    by (simp add: create_cluster_problem_def resolve_metric_def split: sum.splits prod.splits)
qed

theorem unregistered_metric_fails_witness:
  "''bogus'' \<notin> set (map fst (CLUSTER_METRICS example_env))
   \<and> succeeds (load_dataset example_env fresh_world (DatasetArray local_table))
   \<and> create_cluster_problem example_env fresh_world (DatasetArray local_table) 2 1
        (MetricName ''bogus'') = Inl (ValueError ''Unknown metric bogus'')
   \<and> map_of (CLUSTER_METRICS example_env) ''mse_euclidean'' = Some mse_euclidean
   \<and> create_cluster_problem example_env fresh_world (DatasetArray local_table) 2 1
        (MetricName ''mse_euclidean'')
      = create_cluster_problem example_env fresh_world (DatasetArray local_table) 2 1
        (MetricCallable mse_euclidean)"
proof -
  have a: "''bogus'' \<notin> set (map fst (CLUSTER_METRICS example_env))"
    by (simp add: example_env_def)
  have b: "map_of (CLUSTER_METRICS example_env) ''mse_euclidean'' = Some mse_euclidean"
    by (simp add: example_env_def)
  from unregistered_metric_fails [of "''bogus''" example_env fresh_world
      "DatasetArray local_table" 2 1 mse_euclidean]
    unregistered_metric_fails [of "''mse_euclidean''" example_env fresh_world
      "DatasetArray local_table" 2 1 mse_euclidean] a b
  show ?thesis
    by (simp add: load_dataset_array UnknownMetric_def)
qed

theorem unregistered_metric_counterexample:
  "''bogus'' \<notin> set (map fst (CLUSTER_METRICS example_env))
   \<and> create_cluster_problem example_env populated_world (DatasetName ''glass'') 2 1
        (MetricName ''bogus'')
      = Inl (FileNotFoundError ''banchmark_datasets/glass.txt'')"
proof -
  have g: "get_problem_id example_env ''glass'' = Inr (Some 2)"
    by code_simp
  have "load_dataset example_env populated_world (DatasetName ''glass'')
     = Inl (FileNotFoundError ''banchmark_datasets/glass.txt'')"
    by (simp add: load_dataset_def g populated_world_def path_exists_def loadtxt_def)
  then show ?thesis
    by (simp add: create_cluster_problem_def example_env_def)
qed

subsection \<open>Catalog lookups\<close>

lemma first_key_Some:
  "dataset_name \<in> set (map snd items) \<Longrightarrow>
     \<exists>k. first_key items dataset_name = Some k \<and> (k, dataset_name) \<in> set items"
  by (induction items) force+

lemma first_key_is_key:
  "first_key items nm = Some n \<Longrightarrow> \<exists>v. map_of items n = Some v"
  by (induction items) (auto split: if_splits)

lemma get_problem_id_is_key:
  assumes "get_problem_id e s = Inr (Some n)"
  shows "\<exists>v. map_of (CLUSTER_BASELINE_DATASETS e) n = Some v"
proof -
  from assms have "first_key (CLUSTER_BASELINE_DATASETS e) (lower s) = Some n"
    by (simp add: get_problem_id_def Let_def split: if_splits)
  then show ?thesis
    by (rule first_key_is_key)
qed

lemma get_problem_id_not_None: "get_problem_id e s \<noteq> Inr None"
proof
  assume a: "get_problem_id e s = Inr None"
  then have m: "lower s \<in> set (map snd (CLUSTER_BASELINE_DATASETS e))"
    and f: "first_key (CLUSTER_BASELINE_DATASETS e) (lower s) = None"
    by (simp_all add: get_problem_id_def Let_def split: if_splits)
  from first_key_Some [OF m] f show False by simp
qed

lemma example_ids:
  "get_problem_id example_env ''IRIS'' = Inr (Some 1)"
  "get_problem_id example_env ''iris'' = Inr (Some 1)"
  by code_simp+

text \<open>
  C6. For an integer \<open>fid\<close> that is not a key of the catalog, \<open>get_problem\<close> fails with
  the error "Unknown dataset id" and builds nothing. For a key of the catalog, given as
  an integer or as a name that \<open>get_problem_id\<close> resolves to it, \<open>get_problem\<close> is the
  call of \<open>create_cluster_problem\<close> with the name the catalog stores under that key,
  the same \<open>k\<close> and instance, and the function registered as \<open>mse_euclidean\<close>.
\<close>

theorem get_problem_resolution:
  "(n \<notin> set (map fst (CLUSTER_BASELINE_DATASETS e)) \<longrightarrow>
      get_problem e w (FidInt n) i k = Inl (UnknownDatasetId (str_int n)))
   \<and> (map_of (CLUSTER_BASELINE_DATASETS e) n = Some dataset
       \<and> map_of (CLUSTER_METRICS e) ''mse_euclidean'' = Some m \<longrightarrow>
        get_problem e w (FidInt n) i k
          = create_cluster_problem e w (DatasetName dataset) k i (MetricCallable m))
   \<and> (get_problem_id e s = Inr (Some n)
       \<and> map_of (CLUSTER_METRICS e) ''mse_euclidean'' = Some m \<longrightarrow>
        (\<exists>dataset. map_of (CLUSTER_BASELINE_DATASETS e) n = Some dataset
           \<and> get_problem e w (FidStr s) i k
               = create_cluster_problem e w (DatasetName dataset) k i (MetricCallable m)))"
proof (intro conjI impI)
  assume "n \<notin> set (map fst (CLUSTER_BASELINE_DATASETS e))"
  then have "map_of (CLUSTER_BASELINE_DATASETS e) n = None"
    by (simp add: map_of_eq_None_iff)
  then show "get_problem e w (FidInt n) i k = Inl (UnknownDatasetId (str_int n))"
    by (simp add: get_problem_def UnknownDatasetId_def)
next
  assume "map_of (CLUSTER_BASELINE_DATASETS e) n = Some dataset
       \<and> map_of (CLUSTER_METRICS e) ''mse_euclidean'' = Some m"
  then show "get_problem e w (FidInt n) i k
          = create_cluster_problem e w (DatasetName dataset) k i (MetricCallable m)"
    by (simp add: get_problem_def)
next
  assume h: "get_problem_id e s = Inr (Some n)
       \<and> map_of (CLUSTER_METRICS e) ''mse_euclidean'' = Some m"
  then obtain v where "map_of (CLUSTER_BASELINE_DATASETS e) n = Some v"
    using get_problem_id_is_key by blast
  with h show "\<exists>dataset. map_of (CLUSTER_BASELINE_DATASETS e) n = Some dataset
           \<and> get_problem e w (FidStr s) i k
               = create_cluster_problem e w (DatasetName dataset) k i (MetricCallable m)"
    by (simp add: get_problem_def)
qed

theorem get_problem_resolution_witness:
  "5 \<notin> set (map fst (CLUSTER_BASELINE_DATASETS example_env))
   \<and> get_problem example_env populated_world (FidInt 5) 1 2
       = Inl (ValueError ''Unknown dataset id 5'')
   \<and> map_of (CLUSTER_BASELINE_DATASETS example_env) 1 = Some ''iris''
   \<and> map_of (CLUSTER_METRICS example_env) ''mse_euclidean'' = Some mse_euclidean
   \<and> get_problem example_env populated_world (FidInt 1) 1 2
       = create_cluster_problem example_env populated_world (DatasetName ''iris'') 2 1
           (MetricCallable mse_euclidean)
   \<and> get_problem_id example_env ''IRIS'' = Inr (Some 1)
   \<and> get_problem example_env populated_world (FidStr ''IRIS'') 1 2
       = create_cluster_problem example_env populated_world (DatasetName ''iris'') 2 1
           (MetricCallable mse_euclidean)"
proof -
  have a: "5 \<notin> set (map fst (CLUSTER_BASELINE_DATASETS example_env))"
    "map_of (CLUSTER_BASELINE_DATASETS example_env) 1 = Some ''iris''"
    "map_of (CLUSTER_METRICS example_env) ''mse_euclidean'' = Some mse_euclidean"
    by (simp_all add: example_env_def)
  have s: "str_int 5 = ''5''"
    by code_simp
  from get_problem_resolution [of 5 example_env populated_world 1 2 "''iris''" mse_euclidean
      "''IRIS''"]
    get_problem_resolution [of 1 example_env populated_world 1 2 "''iris''" mse_euclidean
      "''IRIS''"] a s example_ids
  show ?thesis
    by (simp add: UnknownDatasetId_def)
qed

subsection \<open>Resolving the dataset reference\<close>

lemma create_local_file:
  assumes p: "path_exists w (s @ ''.txt'')"
    and c: "create_cluster_problem e w (DatasetName s) k i m = Inr (f, r)"
  shows "\<exists>data f0. loadtxt w (s @ ''.txt'') = Inr (Array2 data)
           \<and> create_cluster_problem e w (DatasetArray data) k i m = Inr (f0, r)
           \<and> f = f0\<lparr>name := ''Cluster_'' @ s @ ''_k'' @ str_nat k\<rparr>
           \<and> problem_id f = None"
proof -
  from create_success_parts [OF c] obtain pid data label metric where
    l: "load_dataset e w (DatasetName s) = Inr (pid, Array2 data, label)"
    and m: "resolve_metric e m = Inr metric" and d: "rectangular data" "data \<noteq> []"
    by blast
  from l p have t: "loadtxt w (s @ ''.txt'') = Inr (Array2 data)" and v: "pid = None" "label = s"
    by (simp_all add: load_dataset_def split: sum.splits)
  let ?f0 = "wrap_problem
      (obj_func metric (normalize_rows (np_min_axis0 data) (np_max_axis0 data) data)
         k (length (hd data)))
      (''Cluster_'' @ ''custom'' @ ''_k'' @ str_nat k)
      OptimizationType_MIN ProblemClass_REAL 0 1 i (k * length (hd data))"
  have a: "create_cluster_problem e w (DatasetArray data) k i m
      = Inr (?f0, retransform k (np_tile (np_min_axis0 data) k) (np_tile (np_max_axis0 data) k))"
    using create_explicit [OF load_dataset_array m d, of w k i] by simp
  from c create_explicit [OF l m d, of k i] v have
    f: "f = wrap_problem
      (obj_func metric (normalize_rows (np_min_axis0 data) (np_max_axis0 data) data)
         k (length (hd data)))
      (''Cluster_'' @ s @ ''_k'' @ str_nat k)
      OptimizationType_MIN ProblemClass_REAL 0 1 i (k * length (hd data))"
    and r: "r = retransform k (np_tile (np_min_axis0 data) k) (np_tile (np_max_axis0 data) k)"
    by simp_all
  have "f = ?f0\<lparr>name := ''Cluster_'' @ s @ ''_k'' @ str_nat k\<rparr>" "problem_id f = None"
    by (simp_all add: f wrap_problem_def)
  with t a r show ?thesis
    by (intro exI [of _ data] exI [of _ ?f0]) (simp only: simp_thms)
qed

lemma create_catalog_file:
  assumes p: "\<not> path_exists w (s @ ''.txt'')"
    and c: "create_cluster_problem e w (DatasetName s) k i m = Inr (f, r)"
  shows "\<exists>n data f0. get_problem_id e s = Inr (Some n)
           \<and> loadtxt w (''banchmark_datasets/'' @ s @ ''.txt'') = Inr (Array2 data)
           \<and> create_cluster_problem e w (DatasetArray data) k i m = Inr (f0, r)
           \<and> f = set_id (f0\<lparr>name := ''Cluster_'' @ s @ ''_k'' @ str_nat k\<rparr>) n
           \<and> problem_id f = Some n"
proof -
  from create_success_parts [OF c] obtain pid data label metric where
    l: "load_dataset e w (DatasetName s) = Inr (pid, Array2 data, label)"
    and m: "resolve_metric e m = Inr metric" and d: "rectangular data" "data \<noteq> []"
    by blast
  from l p have g: "get_problem_id e s = Inr pid"
    and t: "loadtxt w (''banchmark_datasets/'' @ s @ ''.txt'') = Inr (Array2 data)"
    and v: "label = s"
    by (simp_all add: load_dataset_def split: sum.splits)
  from g get_problem_id_not_None [of e s] obtain n where n: "pid = Some n"
    by (cases pid) auto
  let ?f0 = "wrap_problem
      (obj_func metric (normalize_rows (np_min_axis0 data) (np_max_axis0 data) data)
         k (length (hd data)))
      (''Cluster_'' @ ''custom'' @ ''_k'' @ str_nat k)
      OptimizationType_MIN ProblemClass_REAL 0 1 i (k * length (hd data))"
  have a: "create_cluster_problem e w (DatasetArray data) k i m
      = Inr (?f0, retransform k (np_tile (np_min_axis0 data) k) (np_tile (np_max_axis0 data) k))"
    using create_explicit [OF load_dataset_array m d, of w k i] by simp
  from c create_explicit [OF l m d, of k i] v n have
    f: "f = set_id (wrap_problem
      (obj_func metric (normalize_rows (np_min_axis0 data) (np_max_axis0 data) data)
         k (length (hd data)))
      (''Cluster_'' @ s @ ''_k'' @ str_nat k)
      OptimizationType_MIN ProblemClass_REAL 0 1 i (k * length (hd data))) n"
    and r: "r = retransform k (np_tile (np_min_axis0 data) k) (np_tile (np_max_axis0 data) k)"
    by simp_all
  have "f = set_id (?f0\<lparr>name := ''Cluster_'' @ s @ ''_k'' @ str_nat k\<rparr>) n"
    "problem_id f = Some n"
    by (simp_all add: f wrap_problem_def set_id_def)
  with g n t a r show ?thesis
    by (intro exI [of _ n] exI [of _ data] exI [of _ ?f0]) (simp only: simp_thms)
qed

lemma create_unknown_name:
  assumes "\<not> path_exists w (s @ ''.txt'')" and "get_problem_id e s = Inl err"
  shows "create_cluster_problem e w (DatasetName s) k i m = Inl err"
  using assms by (simp add: create_cluster_problem_def load_dataset_def)

lemma load_iris:
  "load_dataset example_env populated_world (DatasetName ''iris'')
     = Inr (Some 1, Array2 iris_table, ''iris'')"
  by (simp add: load_dataset_def example_ids)
    (simp add: populated_world_def path_exists_def loadtxt_def squeeze_tables)

text \<open>
  A file with one column, or with one row, is loaded as a one-dimensional array: the
  metric is resolved first, then the call raises at line 93.
\<close>

lemma squeezed_file_raises:
  "loadtxt squeezed_world ''col.txt'' = Inr (Array1 [1, 2, 3])"
  "loadtxt squeezed_world ''row.txt'' = Inr (Array1 [1, 2, 3])"
  "create_cluster_problem example_env squeezed_world (DatasetName ''col'') 2 1
     (MetricName ''mse_euclidean'') = Inl (IndexError ''tuple index out of range'')"
  "create_cluster_problem example_env squeezed_world (DatasetName ''row'') 2 1
     (MetricName ''mse_euclidean'') = Inl (IndexError ''tuple index out of range'')"
  "create_cluster_problem example_env squeezed_world (DatasetName ''col'') 2 1
     (MetricName ''bogus'') = Inl (ValueError ''Unknown metric bogus'')"
  by (simp_all add: create_cluster_problem_def load_dataset_def resolve_metric_def
      example_env_def squeezed_world_def path_exists_def loadtxt_def np_squeeze_def
      rectangular_def)

lemma populated_paths:
  "path_exists populated_world (''mine'' @ ''.txt'')"
  "\<not> path_exists populated_world (''iris'' @ ''.txt'')"
  "\<not> path_exists populated_world (''wine'' @ ''.txt'')"
  by (simp_all add: populated_world_def path_exists_def)

text \<open>
  C7. For a string dataset reference \<open>s\<close>: when the path \<open>s.txt\<close> exists, a successful
  call has loaded the numeric rows of that file as a matrix, returns the problem built
  from them under the label \<open>s\<close>, and attaches no catalog ID. Otherwise \<open>s\<close> is resolved with
  \<open>get_problem_id\<close>, whose error is the error of the call; a successful call has loaded
  \<open>banchmark_datasets/s.txt\<close> and returns the problem built from its rows under the
  label \<open>s\<close>, with the catalog ID set on the problem after its construction.
\<close>

theorem dataset_reference_resolution:
  "(path_exists w (s @ ''.txt'')
      \<and> create_cluster_problem e w (DatasetName s) k i m = Inr (f, r) \<longrightarrow>
        (\<exists>data f0. loadtxt w (s @ ''.txt'') = Inr (Array2 data)
           \<and> create_cluster_problem e w (DatasetArray data) k i m = Inr (f0, r)
           \<and> f = f0\<lparr>name := ''Cluster_'' @ s @ ''_k'' @ str_nat k\<rparr>
           \<and> problem_id f = None))
   \<and> (\<not> path_exists w (s @ ''.txt'')
      \<and> create_cluster_problem e w (DatasetName s) k i m = Inr (f, r) \<longrightarrow>
        (\<exists>n data f0. get_problem_id e s = Inr (Some n)
           \<and> loadtxt w (''banchmark_datasets/'' @ s @ ''.txt'') = Inr (Array2 data)
           \<and> create_cluster_problem e w (DatasetArray data) k i m = Inr (f0, r)
           \<and> f = set_id (f0\<lparr>name := ''Cluster_'' @ s @ ''_k'' @ str_nat k\<rparr>) n
           \<and> problem_id f = Some n))
   \<and> (\<not> path_exists w (s @ ''.txt'') \<and> get_problem_id e s = Inl err \<longrightarrow>
        create_cluster_problem e w (DatasetName s) k i m = Inl err)"
proof (intro conjI impI)
  assume "path_exists w (s @ ''.txt'')
      \<and> create_cluster_problem e w (DatasetName s) k i m = Inr (f, r)"
  then have "path_exists w (s @ ''.txt'')"
    and "create_cluster_problem e w (DatasetName s) k i m = Inr (f, r)"
    by (rule conjunct1, rule conjunct2)
  then show "\<exists>data f0. loadtxt w (s @ ''.txt'') = Inr (Array2 data)
           \<and> create_cluster_problem e w (DatasetArray data) k i m = Inr (f0, r)
           \<and> f = f0\<lparr>name := ''Cluster_'' @ s @ ''_k'' @ str_nat k\<rparr>
           \<and> problem_id f = None"
    by (rule create_local_file)
next
  assume "\<not> path_exists w (s @ ''.txt'')
      \<and> create_cluster_problem e w (DatasetName s) k i m = Inr (f, r)"
  then have "\<not> path_exists w (s @ ''.txt'')"
    and "create_cluster_problem e w (DatasetName s) k i m = Inr (f, r)"
    by (rule conjunct1, rule conjunct2)
  then show "\<exists>n data f0. get_problem_id e s = Inr (Some n)
           \<and> loadtxt w (''banchmark_datasets/'' @ s @ ''.txt'') = Inr (Array2 data)
           \<and> create_cluster_problem e w (DatasetArray data) k i m = Inr (f0, r)
           \<and> f = set_id (f0\<lparr>name := ''Cluster_'' @ s @ ''_k'' @ str_nat k\<rparr>) n
           \<and> problem_id f = Some n"
    by (rule create_catalog_file)
next
  assume "\<not> path_exists w (s @ ''.txt'') \<and> get_problem_id e s = Inl err"
  then have "\<not> path_exists w (s @ ''.txt'')" and "get_problem_id e s = Inl err"
    by (rule conjunct1, rule conjunct2)
  then show "create_cluster_problem e w (DatasetName s) k i m = Inl err"
    by (rule create_unknown_name)
qed

theorem dataset_reference_resolution_witness:
  "path_exists populated_world (''mine'' @ ''.txt'')
   \<and> succeeds (create_cluster_problem example_env populated_world (DatasetName ''mine'') 1 1
        (MetricName ''mse_euclidean''))
   \<and> problem_id (fst (projr (create_cluster_problem example_env populated_world
        (DatasetName ''mine'') 1 1 (MetricName ''mse_euclidean'')))) = None
   \<and> \<not> path_exists populated_world (''iris'' @ ''.txt'')
   \<and> succeeds (create_cluster_problem example_env populated_world (DatasetName ''iris'') 1 1
        (MetricName ''mse_euclidean''))
   \<and> problem_id (fst (projr (create_cluster_problem example_env populated_world
        (DatasetName ''iris'') 1 1 (MetricName ''mse_euclidean'')))) = Some 1
   \<and> \<not> path_exists populated_world (''wine'' @ ''.txt'')
   \<and> create_cluster_problem example_env populated_world (DatasetName ''wine'') 1 1
        (MetricName ''mse_euclidean'') = Inl (ValueError ''Unknown dataset name wine'')"
proof -
  let ?m = "MetricName ''mse_euclidean''"
  let ?X = "create_cluster_problem example_env populated_world (DatasetName ''mine'') 1 1 ?m"
  let ?Y = "create_cluster_problem example_env populated_world (DatasetName ''iris'') 1 1 ?m"
  have sx: "succeeds ?X"
    using create_loaded [OF load_mine local_min_max(3,4) resolve_example_metric, of 1 1]
    by auto
  then have x: "?X = Inr (fst (projr ?X), snd (projr ?X))"
    using succeeds_Inr [of ?X] by simp
  have sy: "succeeds ?Y"
    using create_loaded [OF load_iris iris_min_max(3,4) resolve_example_metric, of 1 1]
    by auto
  then have y: "?Y = Inr (fst (projr ?Y), snd (projr ?Y))"
    using succeeds_Inr [of ?Y] by simp
  have w: "get_problem_id example_env ''wine'' = Inl (ValueError ''Unknown dataset name wine'')"
    by code_simp
  have "\<exists>data f0. loadtxt populated_world (''mine'' @ ''.txt'') = Inr (Array2 data)
           \<and> create_cluster_problem example_env populated_world (DatasetArray data) 1 1 ?m
               = Inr (f0, snd (projr ?X))
           \<and> fst (projr ?X) = f0\<lparr>name := ''Cluster_'' @ ''mine'' @ ''_k'' @ str_nat 1\<rparr>
           \<and> problem_id (fst (projr ?X)) = None"
    by (rule dataset_reference_resolution [of populated_world "''mine''" example_env 1 1 ?m
          "fst (projr ?X)" "snd (projr ?X)", THEN conjunct1, THEN mp,
          OF conjI [OF populated_paths(1) x]])
  then have a: "problem_id (fst (projr ?X)) = None"
    by (elim exE conjE)
  have "\<exists>n data f0. get_problem_id example_env ''iris'' = Inr (Some n)
           \<and> loadtxt populated_world (''banchmark_datasets/'' @ ''iris'' @ ''.txt'')
               = Inr (Array2 data)
           \<and> create_cluster_problem example_env populated_world (DatasetArray data) 1 1 ?m
               = Inr (f0, snd (projr ?Y))
           \<and> fst (projr ?Y)
               = set_id (f0\<lparr>name := ''Cluster_'' @ ''iris'' @ ''_k'' @ str_nat 1\<rparr>) n
           \<and> problem_id (fst (projr ?Y)) = Some n"
    by (rule dataset_reference_resolution [of populated_world "''iris''" example_env 1 1 ?m
          "fst (projr ?Y)" "snd (projr ?Y)", THEN conjunct2, THEN conjunct1, THEN mp,
          OF conjI [OF populated_paths(2) y]])
  then have b: "problem_id (fst (projr ?Y)) = Some 1"
  proof (elim exE conjE)
    fix n
    assume g: "get_problem_id example_env ''iris'' = Inr (Some n)"
      and p: "problem_id (fst (projr ?Y)) = Some n"
    from g have "n = 1"
      by (simp add: example_ids)
    with p show ?thesis
      by (simp only:)
  qed
  have c: "create_cluster_problem example_env populated_world (DatasetName ''wine'') 1 1 ?m
      = Inl (ValueError ''Unknown dataset name wine'')"
    by (rule dataset_reference_resolution [of populated_world "''wine''" example_env 1 1 ?m _ _
          "ValueError ''Unknown dataset name wine''", THEN conjunct2, THEN conjunct2, THEN mp,
          OF conjI [OF populated_paths(3) w]])
  show ?thesis
    by (intro conjI) (rule populated_paths sx sy a b c)+
qed

subsection \<open>The example of the specification\<close>

lemma mse_value:
  "mse_euclidean
     [[Finite 0, Finite 0], [Finite (1 / 2), Finite (1 / 2)], [Finite 1, Finite 1]]
     [[Finite a, Finite b]]
   = Finite ((a\<^sup>2 + b\<^sup>2 + ((1 / 2 - a)\<^sup>2 + (1 / 2 - b)\<^sup>2) + ((1 - a)\<^sup>2 + (1 - b)\<^sup>2)) / 3)"
  by (simp add: mse_euclidean_def finite_rows_def nearest_def sqeuclidean_def)

lemma mse_lower:
  "1 / 3 \<le> ((a::real)\<^sup>2 + b\<^sup>2 + ((1 / 2 - a)\<^sup>2 + (1 / 2 - b)\<^sup>2) + ((1 - a)\<^sup>2 + (1 - b)\<^sup>2)) / 3"
proof -
  have "a\<^sup>2 + b\<^sup>2 + ((1 / 2 - a)\<^sup>2 + (1 / 2 - b)\<^sup>2) + ((1 - a)\<^sup>2 + (1 - b)\<^sup>2)
      = 1 + 3 * (a - 1 / 2)\<^sup>2 + 3 * (b - 1 / 2)\<^sup>2"
    by (simp add: power2_eq_square algebra_simps)
  moreover have "0 \<le> 3 * (a - 1 / 2)\<^sup>2 + 3 * (b - 1 / 2)\<^sup>2"
    by simp
  ultimately show ?thesis by simp
qed

lemma normalize_local:
  "normalize_rows [0, 0] [4, 4] local_table
     = [[Finite 0, Finite 0], [Finite (1 / 2), Finite (1 / 2)], [Finite 1, Finite 1]]"
  by (simp add: local_table_def normalize_rows_def np_divide_def)

lemma objective_local:
  "obj_func mse_euclidean (normalize_rows [0, 0] [4, 4] local_table) 1 2 [Finite a, Finite b]
   = Inr (Finite ((a\<^sup>2 + b\<^sup>2 + ((1 / 2 - a)\<^sup>2 + (1 / 2 - b)\<^sup>2)
        + ((1 - a)\<^sup>2 + (1 - b)\<^sup>2)) / 3))"
  by (simp add: obj_func_def reshape_def normalize_local mse_value)

lemma retransform_local:
  "retransform 1 (np_tile [0, 0] 1) (np_tile [4, 4] 1) [Finite (1 / 2), Finite (1 / 2)]
   = Inr [[Finite 2, Finite 2]]"
  by (simp add: retransform_def np_tile_def broadcast_def reshape_infer_def reshape_def)

text \<open>
  C8. The dataset \<open>[[0,0],[2,2],[4,4]]\<close> with \<open>k = 1\<close> and the metric \<open>mse_euclidean\<close>.
  The column minima are 0 and the maxima 4, and the normalization maps the rows to
  \<open>[0,0]\<close>, \<open>[1/2,1/2]\<close> and \<open>[1,1]\<close>, and the midpoint \<open>[2,2]\<close> to \<open>[1/2,1/2]\<close>. The
  objective at \<open>[1/2,1/2]\<close> is \<open>1/3\<close>, and no point of the search space has a smaller
  objective: it is the minimum mean squared distance of the three points to one center.
  The retransform maps \<open>[1/2,1/2]\<close> to \<open>[[2,2]]\<close>.
\<close>

theorem end_to_end_example:
  "np_min_axis0 local_table = [0, 0] \<and> np_max_axis0 local_table = [4, 4]
   \<and> normalize_centers local_table local_table
       = [[Finite 0, Finite 0], [Finite (1 / 2), Finite (1 / 2)], [Finite 1, Finite 1]]
   \<and> normalize_centers local_table [[2, 2]] = [[Finite (1 / 2), Finite (1 / 2)]]
   \<and> objective_of
        (create_cluster_problem example_env fresh_world (DatasetArray local_table) 1 1
           (MetricName ''mse_euclidean''))
        [Finite (1 / 2), Finite (1 / 2)] = Inr (Finite (1 / 3))
   \<and> (\<forall>a b. \<exists>v.
         objective_of
           (create_cluster_problem example_env fresh_world (DatasetArray local_table) 1 1
              (MetricName ''mse_euclidean''))
           [Finite a, Finite b] = Inr (Finite v)
         \<and> 1 / 3 \<le> v)
   \<and> retransform_of
        (create_cluster_problem example_env fresh_world (DatasetArray local_table) 1 1
           (MetricName ''mse_euclidean''))
        [Finite (1 / 2), Finite (1 / 2)] = Inr [[Finite 2, Finite 2]]"
proof -
  let ?X = "create_cluster_problem example_env fresh_world (DatasetArray local_table) 1 1
    (MetricName ''mse_euclidean'')"
  from create_loaded [OF load_dataset_array local_min_max(3,4) resolve_example_metric,
      of fresh_world 1 1]
  obtain f where
    x: "?X = Inr (f, retransform 1 (np_tile [0, 0] 1) (np_tile [4, 4] 1))"
    and o: "objective f = obj_func mse_euclidean (normalize_rows [0, 0] [4, 4] local_table) 1 2"
    by (auto simp add: local_min_max)
  have n: "normalize_centers local_table local_table
       = [[Finite 0, Finite 0], [Finite (1 / 2), Finite (1 / 2)], [Finite 1, Finite 1]]"
    "normalize_centers local_table [[2, 2]] = [[Finite (1 / 2), Finite (1 / 2)]]"
    by (simp_all add: normalize_centers_def local_min_max normalize_local)
      (simp add: normalize_rows_def np_divide_def)
  have v: "objective_of ?X [Finite (1 / 2), Finite (1 / 2)] = Inr (Finite (1 / 3))"
    by (simp only: x objective_of.simps o objective_local) (simp add: power2_eq_square)
  have m: "\<forall>a b. \<exists>v. objective_of ?X [Finite a, Finite b] = Inr (Finite v) \<and> 1 / 3 \<le> v"
  proof (intro allI)
    fix a b
    show "\<exists>v. objective_of ?X [Finite a, Finite b] = Inr (Finite v) \<and> 1 / 3 \<le> v"
      unfolding x objective_of.simps o objective_local
      using mse_lower [of a b] by blast
  qed
  have r: "retransform_of ?X [Finite (1 / 2), Finite (1 / 2)] = Inr [[Finite 2, Finite 2]]"
    by (simp only: x retransform_of.simps retransform_local)
  from n v m r show ?thesis
    by (simp only: local_min_max simp_thms)
qed

subsection \<open>Names and instance numbers\<close>

text \<open>
  C9. The resolution of a dataset name to its catalog ID is case-insensitive:
  \<open>get_problem_id\<close> lowercases the name before the lookup, so two names with the same
  lowercase form get the same answer; when the lowercased name is a stored name, the
  answer is a catalog ID stored with that name; when it is absent, the call fails with
  the error "Unknown dataset name", carrying the lowercased name.
\<close>

theorem get_problem_id_case_insensitive:
  "(lower s = lower t \<longrightarrow> get_problem_id e s = get_problem_id e t)
   \<and> (lower s \<in> set (map snd (CLUSTER_BASELINE_DATASETS e)) \<longrightarrow>
        (\<exists>k. get_problem_id e s = Inr (Some k)
             \<and> (k, lower s) \<in> set (CLUSTER_BASELINE_DATASETS e)))
   \<and> (lower s \<notin> set (map snd (CLUSTER_BASELINE_DATASETS e)) \<longrightarrow>
        get_problem_id e s = Inl (UnknownDatasetName (lower s)))"
proof (intro conjI impI)
  assume "lower s = lower t"
  then show "get_problem_id e s = get_problem_id e t"
    by (simp add: get_problem_id_def)
next
  assume h: "lower s \<in> set (map snd (CLUSTER_BASELINE_DATASETS e))"
  from first_key_Some [OF h] obtain k where
    "first_key (CLUSTER_BASELINE_DATASETS e) (lower s) = Some k"
    "(k, lower s) \<in> set (CLUSTER_BASELINE_DATASETS e)"
    by blast
  with h show "\<exists>k. get_problem_id e s = Inr (Some k)
      \<and> (k, lower s) \<in> set (CLUSTER_BASELINE_DATASETS e)"
    by (simp add: get_problem_id_def)
next
  assume "lower s \<notin> set (map snd (CLUSTER_BASELINE_DATASETS e))"
  then show "get_problem_id e s = Inl (UnknownDatasetName (lower s))"
    by (simp add: get_problem_id_def UnknownDatasetName_def)
qed

theorem get_problem_id_case_insensitive_witness:
  "lower ''IrIs'' = lower ''iris''
   \<and> get_problem_id example_env ''IrIs'' = get_problem_id example_env ''iris''
   \<and> get_problem_id example_env ''IrIs'' = Inr (Some 1)
   \<and> get_problem_id example_env ''Wine'' = Inl (UnknownDatasetName ''wine'')"
proof -
  have l: "lower ''IrIs'' = lower ''iris''"
    by code_simp
  have w: "lower ''Wine'' = ''wine''"
    by code_simp
  have a: "lower ''Wine'' \<notin> set (map snd (CLUSTER_BASELINE_DATASETS example_env))"
    by code_simp
  have b: "get_problem_id example_env ''IrIs'' = Inr (Some 1)"
    by code_simp
  from get_problem_id_case_insensitive [of "''IrIs''" "''iris''" example_env]
    get_problem_id_case_insensitive [of "''Wine''" "''Wine''" example_env] l w a b
  show ?thesis by simp
qed

text \<open>
  C10. The instance number reaches the metadata only: two calls of
  \<open>create_cluster_problem\<close> that differ in the instance number alone fail with the same
  error or return problems whose objectives have the same value at every point.
\<close>

theorem instance_affects_metadata_only:
  "objective_of (create_cluster_problem e w dataset k i1 m) x
     = objective_of (create_cluster_problem e w dataset k i2 m) x"
  by (simp add: create_cluster_problem_def wrap_problem_def set_id_def Let_def
      split: sum.splits prod.splits option.splits ndarray.splits)

theorem instance_affects_metadata_only_witness:
  "succeeds (create_cluster_problem example_env populated_world (DatasetName ''mine'') 1 1
      (MetricName ''mse_euclidean''))
   \<and> succeeds (create_cluster_problem example_env populated_world (DatasetName ''mine'') 1 7
      (MetricName ''mse_euclidean''))
   \<and> objective_of
        (create_cluster_problem example_env populated_world (DatasetName ''mine'') 1 1
           (MetricName ''mse_euclidean'')) [Finite 0, Finite 1]
      = objective_of
          (create_cluster_problem example_env populated_world (DatasetName ''mine'') 1 7
             (MetricName ''mse_euclidean'')) [Finite 0, Finite 1]"
proof -
  have "succeeds (create_cluster_problem example_env populated_world (DatasetName ''mine'') 1 1
      (MetricName ''mse_euclidean''))"
    using create_loaded [OF load_mine local_min_max(3,4) resolve_example_metric, of 1 1]
    by auto
  moreover have "succeeds (create_cluster_problem example_env populated_world
      (DatasetName ''mine'') 1 7 (MetricName ''mse_euclidean''))"
    using create_loaded [OF load_mine local_min_max(3,4) resolve_example_metric, of 1 7]
    by auto
  ultimately show ?thesis
    using instance_affects_metadata_only [of example_env populated_world "DatasetName ''mine''"
        1 1 "MetricName ''mse_euclidean''" "[Finite 0, Finite 1]" 7]
    by (intro conjI)
qed

end
